theory Spec2Isabelle
  imports Complex_Main "HOL-Library.AList"
begin

section \<open>Data model\<close>

text \<open>
  The cells a batch column can hold: a string (a text, a label before numericalisation),
  an integer (a label id) or a list of integers (token ids, an attention mask).
\<close>

datatype pyval = PyStr string | PyInt int | PyIntList "int list"

type_synonym column = "pyval list"

text \<open>
  A Python \<^verbatim>\<open>dict\<close> from column names to columns, as \<^verbatim>\<open>Dataset.map(..., batched=True)\<close>
  hands it to the mapped function. Python dicts keep insertion order and assignment to an
  existing key keeps the key's position: this is \<open>AList.update\<close> on an association list,
  read with \<open>map_of\<close>.
\<close>

type_synonym examples = "(string \<times> column) list"

text \<open>\<^verbatim>\<open>label2id\<close>: the configuration's dict from label string to integer id.\<close>

type_synonym label2id = "(string \<times> int) list"

text \<open>
  The pieces of an f-string message: literal text, and the \<^verbatim>\<open>repr\<close> of a label column or
  of the \<^verbatim>\<open>label2id\<close> dict, kept as the value that is formatted.
\<close>

datatype message_part = Lit string | ReprColumn column | ReprLabel2id label2id

datatype error =
    InvalidBenchmark "message_part list"
  | KeyError pyval
  | TypeError string
  | ValueError string
  | AttributeError string
  | ArrowInvalid string
  | OverflowError string

section \<open>Label numericalisation\<close>

text \<open>
  \<^verbatim>\<open>label2id[lbl]\<close>. The keys of \<^verbatim>\<open>label2id\<close> are strings, so an integer key is never found
  (KeyError) and a list is unhashable (TypeError).
\<close>

fun getitem :: "label2id \<Rightarrow> pyval \<Rightarrow> error + int" where
  "getitem d (PyStr s) = (case map_of d s of None \<Rightarrow> Inl (KeyError (PyStr s)) | Some v \<Rightarrow> Inr v)"
| "getitem d (PyInt i) = Inl (KeyError (PyInt i))"
| "getitem d (PyIntList xs) = Inl (TypeError ''unhashable type: list'')"

text \<open>
  \<^verbatim>\<open>[label2id[lbl] for lbl in labels]\<close>: the lookups run from left to right and the first one
  that raises ends the comprehension.
\<close>

fun comprehension :: "label2id \<Rightarrow> column \<Rightarrow> error + int list" where
  "comprehension d [] = Inr []"
| "comprehension d (lbl # lbls) =
     (case getitem d lbl of
        Inl e \<Rightarrow> Inl e
      | Inr v \<Rightarrow> (case comprehension d lbls of Inl e \<Rightarrow> Inl e | Inr vs \<Rightarrow> Inr (v # vs)))"

text \<open>
  \<^verbatim>\<open>_create_numerical_labels(self, examples, label2id)\<close>. The method assigns to
  \<^verbatim>\<open>examples["label"]\<close>, that is, it changes the caller's dict, and returns that same dict.
  The model returns a pair: what the call returns or raises, and the contents of the
  caller's \<^verbatim>\<open>examples\<close> dict after the call.

  \<^item> \<^verbatim>\<open>examples["label"]\<close> is read inside the \<^verbatim>\<open>try\<close>; when the key is missing the KeyError is
    caught, and the handler's f-string reads \<^verbatim>\<open>examples["label"]\<close> again, which raises the
    KeyError that leaves the method.
  \<^item> A KeyError of a lookup in \<^verbatim>\<open>label2id\<close> is caught and replaced by InvalidBenchmark. The
    assignment has not happened then: the right-hand side is evaluated first.
  \<^item> Any other exception leaves the method as it is.
\<close>

definition create_numerical_labels ::
  "examples \<Rightarrow> label2id \<Rightarrow> (error + examples) \<times> examples" where
  "create_numerical_labels examples label2id =
     (case map_of examples ''label'' of
        None \<Rightarrow> (Inl (KeyError (PyStr ''label'')), examples)
      | Some labels \<Rightarrow>
          (case comprehension label2id labels of
             Inl (KeyError k) \<Rightarrow>
               (Inl (InvalidBenchmark
                  [Lit ''One of the labels in the dataset, '',
                   ReprColumn labels,
                   Lit '', does not occur in the label2id dictionary '',
                   ReprLabel2id label2id,
                   Lit ''.'']), examples)
           | Inl e \<Rightarrow> (Inl e, examples)
           | Inr ids \<Rightarrow>
               (let examples' = AList.update ''label'' (map PyInt ids) examples
                in (Inr examples', examples'))))"

section \<open>Datasets and their batched map\<close>

text \<open>
  A \<^verbatim>\<open>Dataset\<close> is a table: named columns of one common length. \<^verbatim>\<open>Dataset.map\<close> and
  \<^verbatim>\<open>Dataset.remove_columns\<close> belong to the \<^verbatim>\<open>datasets\<close> library, not to the adapter; this
  section gives them as the library documents them, to the extent \<^verbatim>\<open>_preprocess_data\<close> uses
  them. Both return a new table and leave the one they are called on as it is, so a table
  is a value here.
\<close>

type_synonym dataset = examples

definition num_rows :: "dataset \<Rightarrow> nat" where
  "num_rows ds = (case ds of [] \<Rightarrow> 0 | (name, col) # rest \<Rightarrow> length col)"

text \<open>The rows \<open>i, ..., i + n - 1\<close> of a table, as the dict of lists a batch is.\<close>

definition slice_rows :: "nat \<Rightarrow> nat \<Rightarrow> dataset \<Rightarrow> examples" where
  "slice_rows i n ds = map (\<lambda>(name, col). (name, take n (drop i col))) ds"

text \<open>
  The batches of a batched map over \<open>n\<close> rows, in order, as (first row, number of rows).
  The batch size is the library's default (the call in \<^verbatim>\<open>_preprocess_data\<close> passes none)
  and is a parameter of the model; a batch size of 0 stands for "the whole table as one
  batch". The last batch may be shorter: \<open>take\<close> in \<open>slice_rows\<close> stops at the last row.
\<close>

definition batch_ranges :: "nat \<Rightarrow> nat \<Rightarrow> (nat \<times> nat) list" where
  "batch_ranges batch_size n =
     (if batch_size = 0 then [(0, n)]
      else map (\<lambda>j. (j * batch_size, batch_size)) [0 ..< (n + batch_size - 1) div batch_size])"

definition batches :: "nat \<Rightarrow> dataset \<Rightarrow> examples list" where
  "batches batch_size ds =
     map (\<lambda>(i, n). slice_rows i n ds) (batch_ranges batch_size (num_rows ds))"


text \<open>\<^verbatim>\<open>inputs.update(processed)\<close>: the returned columns are written over the batch.\<close>

definition dict_update :: "examples \<Rightarrow> examples \<Rightarrow> examples" where
  "dict_update inputs processed = fold (\<lambda>(name, col). AList.update name col) processed inputs"

definition same_length :: "examples \<Rightarrow> bool" where
  "same_length b = (\<forall>(name, col) \<in> set b. length col = num_rows b)"

text \<open>
  The table stores integers as signed 64-bit numbers (Arrow \<^verbatim>\<open>int64\<close>), alone or in lists. A
  Python integer outside this range cannot be converted when a batch is written.
\<close>

definition int64 :: "int \<Rightarrow> bool" where
  "int64 i = (- (2 ^ 63) \<le> i \<and> i < 2 ^ 63)"

fun fits_int64 :: "pyval \<Rightarrow> bool" where
  "fits_int64 (PyStr s) = True"
| "fits_int64 (PyInt i) = int64 i"
| "fits_int64 (PyIntList is) = list_all int64 is"

definition cells_fit :: "examples \<Rightarrow> bool" where
  "cells_fit b = list_all (\<lambda>(name, col). list_all fits_int64 col) b"

text \<open>
  The loop of a batched map over the batches. The mapped function gets the batch dict and
  may change it (second component of its result) as well as return a dict; the returned
  columns are merged into the batch as the function left it. The merged batch is then
  written to the new table: its columns are converted to typed arrays, which raises
  OverflowError for an integer outside \<^verbatim>\<open>int64\<close>, and a batch whose columns differ in length,
  or whose column names differ from those of the batches written before (\<open>schema\<close>),
  cannot be written. The first exception ends the loop.
\<close>

fun apply_batches ::
  "(examples \<Rightarrow> (error + examples) \<times> examples) \<Rightarrow> string list option \<Rightarrow> examples list
     \<Rightarrow> error + examples list" where
  "apply_batches f schema [] = Inr []"
| "apply_batches f schema (inputs # rest) =
     (case f inputs of
        (Inl e, inputs') \<Rightarrow> Inl e
      | (Inr processed, inputs') \<Rightarrow>
          (let out = dict_update inputs' processed in
           if \<not> cells_fit out
             then Inl (OverflowError ''Python int too large to convert to C long'')
           else if \<not> same_length out then Inl (ArrowInvalid ''column lengths differ'')
           else if schema \<noteq> None \<and> schema \<noteq> Some (map fst out)
             then Inl (ArrowInvalid ''schema differs'')
           else (case apply_batches f (Some (map fst out)) rest of
                   Inl e \<Rightarrow> Inl e
                 | Inr outs \<Rightarrow> Inr (out # outs))))"

definition column_of :: "examples \<Rightarrow> string \<Rightarrow> column" where
  "column_of b name = (case map_of b name of None \<Rightarrow> [] | Some col \<Rightarrow> col)"

text \<open>The written batches, one after the other, as one table.\<close>

definition concat_batches :: "examples list \<Rightarrow> dataset" where
  "concat_batches bs =
     (case bs of
        [] \<Rightarrow> []
      | b # rest \<Rightarrow> map (\<lambda>name. (name, concat (map (\<lambda>b'. column_of b' name) bs))) (map fst b))"

text \<open>
  \<^verbatim>\<open>dataset.map(f, batched=True)\<close>. A table without rows is returned as it is, and \<open>f\<close> is
  not called.
\<close>

definition dataset_map ::
  "nat \<Rightarrow> (examples \<Rightarrow> (error + examples) \<times> examples) \<Rightarrow> dataset \<Rightarrow> error + dataset" where
  "dataset_map batch_size f ds =
     (if num_rows ds = 0 then Inr ds
      else (case apply_batches f None (batches batch_size ds) of
              Inl e \<Rightarrow> Inl e
            | Inr outs \<Rightarrow> Inr (concat_batches outs)))"

text \<open>\<^verbatim>\<open>dataset.remove_columns(names)\<close>: a name that is no column is a ValueError.\<close>

definition remove_columns :: "string list \<Rightarrow> dataset \<Rightarrow> error + dataset" where
  "remove_columns names ds =
     (if \<exists>name \<in> set names. name \<notin> fst ` set ds
      then Inl (ValueError ''column name not in the dataset'')
      else Inr (filter (\<lambda>(name, col). name \<notin> set names) ds))"

section \<open>Tokenizer, configuration, keyword arguments\<close>

text \<open>
  What a tokenizer call returns: the token-id sequences and the attention masks, one of
  each per text.
\<close>

record encoding =
  input_ids :: "int list list"
  attention_mask :: "int list list"

datatype padding_side = PadRight | PadLeft

text \<open>
  The tokenizer is an object of the \<^verbatim>\<open>transformers\<close> library and a parameter of the adapter:
  \<open>tokenizer_call\<close> is the call \<^verbatim>\<open>tokenizer(doc, truncation=True, padding=True)\<close> on a list of
  texts, \<open>pad_token_id\<close> and \<open>side\<close> are its padding convention, \<open>model_max_length\<close> its
  fixed global maximum length.
\<close>

record tokenizer =
  tokenizer_call :: "column \<Rightarrow> error + encoding"
  pad_token_id :: int
  side :: padding_side
  model_max_length :: nat

record config =
  cfg_label2id :: label2id

datatype kwarg = Tokenizer tokenizer | Config config | Other pyval

type_synonym kwargs = "(string \<times> kwarg) list"

section \<open>Preprocessing\<close>

text \<open>
  The local function \<^verbatim>\<open>tokenise\<close> of \<^verbatim>\<open>_preprocess_data\<close>, closed over \<^verbatim>\<open>kwargs["tokenizer"]\<close>.
  It reads \<^verbatim>\<open>examples["text"]\<close>, calls the tokenizer and returns the encoding; it does not
  change \<^verbatim>\<open>examples\<close>.
\<close>

definition tokenise :: "kwarg \<Rightarrow> examples \<Rightarrow> (error + examples) \<times> examples" where
  "tokenise tok examples =
     (case map_of examples ''text'' of
        None \<Rightarrow> (Inl (KeyError (PyStr ''text'')), examples)
      | Some doc \<Rightarrow>
          (case tok of
             Tokenizer t \<Rightarrow>
               (case tokenizer_call t doc of
                  Inl e \<Rightarrow> (Inl e, examples)
                | Inr enc \<Rightarrow>
                    (Inr [(''input_ids'', map PyIntList (input_ids enc)),
                          (''attention_mask'', map PyIntList (attention_mask enc))],
                     examples))
           | _ \<Rightarrow> (Inl (TypeError ''object is not callable''), examples)))"

text \<open>
  \<^verbatim>\<open>_preprocess_data(self, dataset, framework, **kwargs)\<close>. The result is \<open>Inr (Some d)\<close> for a
  returned dataset and \<open>Inr None\<close> where the method reaches its end without a \<^verbatim>\<open>return\<close>.
\<close>

definition preprocess_data ::
  "nat \<Rightarrow> dataset \<Rightarrow> string \<Rightarrow> kwargs \<Rightarrow> error + dataset option" where
  "preprocess_data batch_size dataset framework kwargs =
     (if framework = ''pytorch'' then
        (case map_of kwargs ''tokenizer'' of
           None \<Rightarrow> Inl (KeyError (PyStr ''tokenizer''))
         | Some tok \<Rightarrow>
             (case dataset_map batch_size (tokenise tok) dataset of
                Inl e \<Rightarrow> Inl e
              | Inr tokenised \<Rightarrow>
                  (case map_of kwargs ''config'' of
                     None \<Rightarrow> Inl (KeyError (PyStr ''config''))
                   | Some (Config cfg) \<Rightarrow>
                       (case dataset_map batch_size
                               (\<lambda>examples. create_numerical_labels examples (cfg_label2id cfg))
                               tokenised of
                          Inl e \<Rightarrow> Inl e
                        | Inr preprocessed \<Rightarrow>
                            (case remove_columns [''text''] preprocessed of
                               Inl e \<Rightarrow> Inl e
                             | Inr d \<Rightarrow> Inr (Some d)))
                   | Some _ \<Rightarrow> Inl (AttributeError ''label2id''))))
      else if framework = ''spacy'' then
        Inl (InvalidBenchmark
          [Lit ''Evaluation of text predictions for SpaCy models is not yet implemented.''])
      else Inr None)"

section \<open>The SpaCy stub\<close>

text \<open>\<^verbatim>\<open>_get_spacy_predictions_and_labels(self, model, dataset)\<close>: a single \<^verbatim>\<open>raise\<close>.\<close>

definition get_spacy_predictions_and_labels ::
  "'model \<Rightarrow> dataset \<Rightarrow> error + (real list list \<times> int list)" where
  "get_spacy_predictions_and_labels model dataset =
     Inl (InvalidBenchmark
       [Lit ''Evaluation of text classification tasks for SpaCy models is not yet implemented.''])"

section \<open>Collator construction\<close>

datatype padding_strategy = Longest | MaxLength | DoNotPad

text \<open>
  \<^verbatim>\<open>DataCollatorWithPadding\<close>, a dataclass of \<^verbatim>\<open>transformers\<close>: the tokenizer it was given, the
  padding strategy, and \<^verbatim>\<open>max_length\<close>, which is \<^verbatim>\<open>None\<close> unless passed.
\<close>

record data_collator =
  collator_tokenizer :: "tokenizer option"
  padding :: padding_strategy
  max_length :: "nat option"

text \<open>\<^verbatim>\<open>_load_data_collator(self, tokenizer=None)\<close>.\<close>

definition load_data_collator :: "tokenizer option \<Rightarrow> data_collator" where
  "load_data_collator tok =
     \<lparr>collator_tokenizer = tok, padding = Longest, max_length = None\<rparr>"

text \<open>One tokenized example, as the collator receives it.\<close>

record feature =
  feature_input_ids :: "int list"
  feature_attention_mask :: "int list"
  feature_label :: int

definition pad_to :: "padding_side \<Rightarrow> int \<Rightarrow> nat \<Rightarrow> int list \<Rightarrow> int list" where
  "pad_to s v n xs =
     (case s of
        PadRight \<Rightarrow> xs @ replicate (n - length xs) v
      | PadLeft \<Rightarrow> replicate (n - length xs) v @ xs)"

definition pad_feature :: "tokenizer \<Rightarrow> nat \<Rightarrow> feature \<Rightarrow> feature" where
  "pad_feature t n x =
     x\<lparr>feature_input_ids := pad_to (side t) (pad_token_id t) n (feature_input_ids x),
       feature_attention_mask := pad_to (side t) 0 n (feature_attention_mask x)\<rparr>"

definition longest :: "feature list \<Rightarrow> nat" where
  "longest batch = fold max (map (\<lambda>x. length (feature_input_ids x)) batch) 0"

text \<open>
  Modelled from the spec: applying a padding collator to a batch, which happens in
  \<^verbatim>\<open>transformers\<close> and not in this file. The spec describes the strategy \<^verbatim>\<open>"longest"\<close>: the
  sequences are padded "to the longest sequence in each batch (not to a fixed global
  maximum), using the tokenizer's padding convention". The fixed maximum is the other
  strategy: the collator's \<^verbatim>\<open>max_length\<close>, or the tokenizer's when the collator has none.
  Without a tokenizer there is nothing to pad with and the call fails.
\<close>

definition collate :: "data_collator \<Rightarrow> feature list \<Rightarrow> error + feature list" where
  "collate c batch =
     (case collator_tokenizer c of
        None \<Rightarrow> Inl (AttributeError ''pad'')
      | Some t \<Rightarrow>
          (case padding c of
             Longest \<Rightarrow> Inr (map (pad_feature t (longest batch)) batch)
           | MaxLength \<Rightarrow>
               Inr (map (pad_feature t
                      (case max_length c of None \<Rightarrow> model_max_length t | Some n \<Rightarrow> n)) batch)
           | DoNotPad \<Rightarrow> Inr batch))"

section \<open>Metric computation\<close>

text \<open>
  A two-dimensional \<^verbatim>\<open>numpy\<close> array of scores of shape \<open>(length (rows a), ncols a)\<close>: every
  row has \<open>ncols a\<close> entries.
\<close>

record ndarray =
  ncols :: nat
  rows :: "real list list"

definition wf_ndarray :: "ndarray \<Rightarrow> bool" where
  "wf_ndarray a = (\<forall>r \<in> set (rows a). length r = ncols a)"

text \<open>The index of the first greatest entry, scanning from the left.\<close>

fun argmax_from :: "nat \<Rightarrow> real \<Rightarrow> nat \<Rightarrow> real list \<Rightarrow> nat" where
  "argmax_from best bv i [] = best"
| "argmax_from best bv i (x # xs) =
     (if bv < x then argmax_from i x (Suc i) xs else argmax_from best bv (Suc i) xs)"

definition argmax_row :: "real list \<Rightarrow> nat" where
  "argmax_row r = (case r of [] \<Rightarrow> 0 | x # xs \<Rightarrow> argmax_from 0 x 1 xs)"

text \<open>
  \<^verbatim>\<open>predictions.argmax(axis=-1)\<close>: one index per row. \<^verbatim>\<open>numpy\<close> raises a ValueError when the
  axis has no entries.
\<close>

definition argmax :: "ndarray \<Rightarrow> error + int list" where
  "argmax a =
     (if ncols a = 0 then Inl (ValueError ''attempt to get argmax of an empty sequence'')
      else Inr (map (\<lambda>r. int (argmax_row r)) (rows a)))"

text \<open>
  A metric object: \<^verbatim>\<open>compute(predictions=..., references=...)\<close> returns a dict of values.
  \<^verbatim>\<open>self._metrics\<close>, the dict of the benchmark's metric objects, is filled by the base class.
\<close>

record metric =
  compute :: "int list \<Rightarrow> int list \<Rightarrow> error + (string \<times> real) list"

record benchmark =
  metrics :: "(string \<times> metric) list"

text \<open>
  \<^verbatim>\<open>_compute_metrics(self, predictions_and_labels, id2label=None)\<close>. The result is the dict
  \<^verbatim>\<open>dict(mcc=...)\<close>.
\<close>

definition compute_metrics ::
  "benchmark \<Rightarrow> ndarray \<times> int list \<Rightarrow> string list option \<Rightarrow> error + (string \<times> real) list" where
  "compute_metrics self predictions_and_labels id2label =
     (case predictions_and_labels of
        (predictions, labels) \<Rightarrow>
          (case argmax predictions of
             Inl e \<Rightarrow> Inl e
           | Inr predictions' \<Rightarrow>
               (case map_of (metrics self) ''mcc'' of
                  None \<Rightarrow> Inl (KeyError (PyStr ''mcc''))
                | Some m \<Rightarrow>
                    (case compute m predictions' labels of
                       Inl e \<Rightarrow> Inl e
                     | Inr results \<Rightarrow>
                         (case map_of results ''matthews_correlation'' of
                            None \<Rightarrow> Inl (KeyError (PyStr ''matthews_correlation''))
                          | Some v \<Rightarrow> Inr [(''mcc'', v)])))))"

text \<open>
  Modelled from the spec: the metric object stored under \<^verbatim>\<open>"mcc"\<close>. It is created by the base
  class \<^verbatim>\<open>BenchmarkDataset\<close>, which is not part of this file; the spec says it supports
  "compute(predictions, references) -> mapping containing matthews_correlation" and that
  the value is the Matthews correlation coefficient. The coefficient is given by its
  definition for any number of classes, over exact real numbers: with \<open>n\<close> samples, \<open>c\<close> of
  them predicted correctly, \<open>t k\<close> samples of true class \<open>k\<close> and \<open>p k\<close> samples predicted
  as \<open>k\<close>,
  \<open>(c * n - \<Sum>k. t k * p k) / sqrt ((n\<^sup>2 - \<Sum>k. (t k)\<^sup>2) * (n\<^sup>2 - \<Sum>k. (p k)\<^sup>2))\<close>,
  and 0 when the denominator is 0. Inputs of different lengths are rejected.
\<close>

definition n_correct :: "int list \<Rightarrow> int list \<Rightarrow> int" where
  "n_correct y_true y_pred = int (length (filter (\<lambda>(t, p). t = p) (zip y_true y_pred)))"

definition class_dot :: "int list \<Rightarrow> int list \<Rightarrow> int list \<Rightarrow> int" where
  "class_dot classes xs ys =
     (\<Sum>k \<leftarrow> classes. int (count_list xs k) * int (count_list ys k))"

definition cov :: "int list \<Rightarrow> int list \<Rightarrow> int" where
  "cov xs ys =
     n_correct xs ys * int (length xs) - class_dot (remdups (xs @ ys)) xs ys"

definition var :: "int list \<Rightarrow> int list \<Rightarrow> int" where
  "var classes xs = (int (length xs))\<^sup>2 - class_dot classes xs xs"

definition matthews_corrcoef :: "int list \<Rightarrow> int list \<Rightarrow> real" where
  "matthews_corrcoef y_true y_pred =
     (let classes = remdups (y_true @ y_pred);
          cov_ytyp = cov y_true y_pred;
          cov_ypyp = var classes y_pred;
          cov_ytyt = var classes y_true
      in if cov_ypyp * cov_ytyt = 0 then 0
         else real_of_int cov_ytyp / sqrt (real_of_int (cov_ytyt * cov_ypyp)))"

definition matthews_correlation :: metric where
  "matthews_correlation =
     \<lparr>compute = (\<lambda>predictions references.
        if length predictions \<noteq> length references
        then Inl (ValueError ''mismatch in the number of predictions and references'')
        else Inr [(''matthews_correlation'', matthews_corrcoef references predictions)])\<rparr>"

section \<open>Example inputs\<close>

text \<open>
  A tokenizer that encodes every text as the two tokens 101 and 102, a batch of two
  tokenized examples of lengths 4 and 2, a configuration with the labels \<^verbatim>\<open>"pos"\<close> and
  \<^verbatim>\<open>"neg"\<close>, and the keyword arguments that carry this tokenizer and configuration.
\<close>

definition example_tokenizer :: tokenizer where
  "example_tokenizer =
     \<lparr>tokenizer_call = (\<lambda>doc. Inr \<lparr>input_ids = map (\<lambda>_. [101, 102]) doc,
                                      attention_mask = map (\<lambda>_. [1, 1]) doc\<rparr>),
      pad_token_id = 0, side = PadRight, model_max_length = 512\<rparr>"

definition example_batch :: "feature list" where
  "example_batch =
     [\<lparr>feature_input_ids = [101, 7, 8, 102], feature_attention_mask = [1, 1, 1, 1], feature_label = 1\<rparr>,
      \<lparr>feature_input_ids = [101, 102], feature_attention_mask = [1, 1], feature_label = 0\<rparr>]"





text \<open>A benchmark whose metric under \<^verbatim>\<open>"mcc"\<close> is the Matthews correlation metric.\<close>

definition example_benchmark :: benchmark where
  "example_benchmark = \<lparr>metrics = [(''mcc'', matthews_correlation)]\<rparr>"

section \<open>Label numericalisation: lemmas\<close>

lemma comprehension_known:
  "set ls \<subseteq> fst ` set d \<Longrightarrow>
     comprehension d (map PyStr ls) = Inr (map (\<lambda>l. the (map_of d l)) ls)"
proof (induction ls)
  case Nil
  show ?case by simp
next
  case (Cons l ls)
  from Cons.prems have "l \<in> fst ` set d" by simp
  then obtain v where "map_of d l = Some v"
    by (metis domD dom_map_of_conv_image_fst)
  with Cons show ?case by simp
qed

lemma comprehension_unknown:
  "\<not> set ls \<subseteq> fst ` set d \<Longrightarrow> \<exists>k. comprehension d (map PyStr ls) = Inl (KeyError k)"
proof (induction ls)
  case Nil
  then show ?case by simp
next
  case (Cons l ls)
  show ?case
  proof (cases "map_of d l")
    case None
    then show ?thesis by simp
  next
    case (Some v)
    then have "l \<in> fst ` set d"
      by (metis domI dom_map_of_conv_image_fst)
    with Cons.prems have "\<not> set ls \<subseteq> fst ` set d" by simp
    with Cons.IH obtain k where "comprehension d (map PyStr ls) = Inl (KeyError k)" by blast
    with Some show ?thesis by simp
  qed
qed

lemma map_of_update_label:
  "map_of (AList.update ''label'' col examples) name =
     (if name = ''label'' then Some col else map_of examples name)"
  by (simp add: update_conv')

lemma keys_update_label:
  "map_of examples ''label'' = Some old \<Longrightarrow>
     map fst (AList.update ''label'' col examples) = map fst examples"
proof -
  assume "map_of examples ''label'' = Some old"
  then have "''label'' \<in> fst ` set examples"
    by (metis domI dom_map_of_conv_image_fst)
  then show ?thesis
    by (simp add: update_keys)
qed

lemma comprehension_PyInt:
  "comprehension d (map PyInt (i # is)) = Inl (KeyError (PyInt i))"
  by simp

lemma longest_fold:
  "fold max ns m = Max (insert m (set ns))" for m :: nat
proof (induction ns arbitrary: m)
  case Nil
  show ?case by simp
next
  case (Cons n ns)
  have "Max (insert (max n m) (set ns)) = Max (insert m (insert n (set ns)))"
  proof (cases "set ns = {}")
    case True
    then show ?thesis by (simp add: max.commute)
  next
    case False
    then show ?thesis by (simp add: ac_simps)
  qed
  with Cons show ?case by simp
qed

lemma longest_upper:
  "x \<in> set batch \<Longrightarrow> length (feature_input_ids x) \<le> longest batch"
  by (simp add: longest_def longest_fold)

lemma longest_attained:
  "batch \<noteq> [] \<Longrightarrow> \<exists>x \<in> set batch. length (feature_input_ids x) = longest batch"
proof -
  assume "batch \<noteq> []"
  let ?S = "set (map (\<lambda>x. length (feature_input_ids x)) batch)"
  have ne: "?S \<noteq> {}" using \<open>batch \<noteq> []\<close> by simp
  have "longest batch = Max (insert 0 ?S)"
    by (simp add: longest_def longest_fold)
  also have "\<dots> = Max ?S"
    using ne by simp
  finally have "longest batch = Max ?S" .
  moreover have "Max ?S \<in> ?S"
    using ne by (intro Max_in) simp_all
  ultimately have "longest batch \<in> ?S" by simp
  then show ?thesis by auto
qed

lemma length_pad_to: "length (pad_to s v n xs) = max n (length xs)"
  by (cases s) (auto simp: pad_to_def)

section \<open>Batched map: lemmas\<close>



























section \<open>Metric computation: lemmas\<close>

lemma cauchy_schwarz_sum:
  fixes a b :: "'i \<Rightarrow> int"
  shows "(\<Sum>x\<in>S. a x * b x)\<^sup>2 \<le> (\<Sum>x\<in>S. (a x)\<^sup>2) * (\<Sum>x\<in>S. (b x)\<^sup>2)"
proof -
  let ?A = "\<Sum>x\<in>S. (a x)\<^sup>2" and ?B = "\<Sum>x\<in>S. (b x)\<^sup>2" and ?C = "\<Sum>x\<in>S. a x * b x"
  have expand: "(a x * b y - a y * b x)\<^sup>2 =
      (a x)\<^sup>2 * (b y)\<^sup>2 - 2 * ((a x * b x) * (a y * b y)) + (b x)\<^sup>2 * (a y)\<^sup>2" for x y
    by (simp add: power2_eq_square algebra_simps)
  have "0 \<le> (\<Sum>x\<in>S. \<Sum>y\<in>S. (a x * b y - a y * b x)\<^sup>2)"
    by (intro sum_nonneg) simp
  also have "\<dots> = (\<Sum>x\<in>S. \<Sum>y\<in>S. (a x)\<^sup>2 * (b y)\<^sup>2)
      - 2 * (\<Sum>x\<in>S. \<Sum>y\<in>S. (a x * b x) * (a y * b y))
      + (\<Sum>x\<in>S. \<Sum>y\<in>S. (b x)\<^sup>2 * (a y)\<^sup>2)"
    by (simp only: expand sum.distrib sum_subtractf sum_distrib_left)
  also have "(\<Sum>x\<in>S. \<Sum>y\<in>S. (a x)\<^sup>2 * (b y)\<^sup>2) = ?A * ?B"
    by (simp only: sum_product)
  also have "(\<Sum>x\<in>S. \<Sum>y\<in>S. (a x * b x) * (a y * b y)) = ?C * ?C"
    by (simp only: sum_product)
  also have "(\<Sum>x\<in>S. \<Sum>y\<in>S. (b x)\<^sup>2 * (a y)\<^sup>2) = ?B * ?A"
    by (simp only: sum_product)
  finally have "0 \<le> 2 * (?A * ?B) - 2 * ?C\<^sup>2"
    by (simp add: power2_eq_square algebra_simps)
  then show ?thesis by simp
qed

lemma centred_sum:
  fixes u v :: "nat \<Rightarrow> int" and K :: "int set" and U V :: "int \<Rightarrow> int"
  assumes fin: "finite K"
    and uK: "\<And>i. i < n \<Longrightarrow> u i \<in> K"
    and U: "\<And>k. U k = (\<Sum>i<n. if u i = k then 1 else 0)"
    and V: "\<And>k. V k = (\<Sum>i<n. if v i = k then 1 else 0)"
  shows "(\<Sum>i<n. \<Sum>k\<in>K. (int n * (if u i = k then 1 else 0) - U k) *
                          (int n * (if v i = k then 1 else 0) - V k)) =
         int n * (int n * (\<Sum>i<n. if u i = v i then 1 else 0) - (\<Sum>k\<in>K. U k * V k))"
proof -
  let ?N = "int n"
  let ?du = "\<lambda>i k. if u i = k then 1 else 0 :: int"
  let ?dv = "\<lambda>i k. if v i = k then 1 else 0 :: int"
  let ?D = "\<Sum>k\<in>K. U k * V k"
  let ?C = "\<Sum>i<n. if u i = v i then 1 else 0 :: int"
  have expand: "(?N * ?du i k - U k) * (?N * ?dv i k - V k) =
      ?N * ?N * (?du i k * ?dv i k) - ?N * (?du i k * V k) - ?N * (?dv i k * U k) + U k * V k" for i k
    by (simp add: algebra_simps)
  have s1: "(\<Sum>i<n. \<Sum>k\<in>K. ?du i k * ?dv i k) = ?C"
  proof (rule sum.cong [OF refl])
    fix i assume "i \<in> {..<n}"
    then have "u i \<in> K" by (simp add: uK)
    have "(\<Sum>k\<in>K. ?du i k * ?dv i k) = (\<Sum>k\<in>K. if u i = k then ?dv i k else 0)"
      by (intro sum.cong) simp_all
    also have "\<dots> = ?dv i (u i)"
      using fin \<open>u i \<in> K\<close> by (simp add: sum.delta')
    also have "\<dots> = (if u i = v i then 1 else 0)"
      by auto
    finally show "(\<Sum>k\<in>K. ?du i k * ?dv i k) = (if u i = v i then 1 else 0)" .
  qed
  have s2: "(\<Sum>i<n. \<Sum>k\<in>K. ?du i k * V k) = ?D"
  proof -
    have "(\<Sum>i<n. \<Sum>k\<in>K. ?du i k * V k) = (\<Sum>k\<in>K. \<Sum>i<n. ?du i k * V k)"
      by (rule sum.swap)
    also have "\<dots> = (\<Sum>k\<in>K. U k * V k)"
      by (simp only: U sum_distrib_right)
    finally show ?thesis .
  qed
  have s3: "(\<Sum>i<n. \<Sum>k\<in>K. ?dv i k * U k) = ?D"
  proof -
    have "(\<Sum>i<n. \<Sum>k\<in>K. ?dv i k * U k) = (\<Sum>k\<in>K. \<Sum>i<n. ?dv i k * U k)"
      by (rule sum.swap)
    also have "\<dots> = (\<Sum>k\<in>K. V k * U k)"
      by (simp only: V sum_distrib_right)
    also have "\<dots> = ?D"
      by (simp only: mult.commute)
    finally show ?thesis .
  qed
  have s4: "(\<Sum>i<n. \<Sum>k\<in>K. U k * V k) = ?N * ?D"
    by simp
  have "(\<Sum>i<n. \<Sum>k\<in>K. (?N * ?du i k - U k) * (?N * ?dv i k - V k)) =
        ?N * ?N * (\<Sum>i<n. \<Sum>k\<in>K. ?du i k * ?dv i k)
        - ?N * (\<Sum>i<n. \<Sum>k\<in>K. ?du i k * V k)
        - ?N * (\<Sum>i<n. \<Sum>k\<in>K. ?dv i k * U k)
        + (\<Sum>i<n. \<Sum>k\<in>K. U k * V k)"
    by (simp only: expand sum.distrib sum_subtractf sum_distrib_left)
  also have "\<dots> = ?N * ?N * ?C - ?N * ?D - ?N * ?D + ?N * ?D"
    by (simp only: s1 s2 s3 s4)
  also have "\<dots> = ?N * (?N * ?C - ?D)"
    by (simp add: algebra_simps)
  finally show ?thesis .
qed

lemma covariance_bound:
  fixes u v :: "nat \<Rightarrow> int" and K :: "int set" and U V :: "int \<Rightarrow> int"
  assumes fin: "finite K"
    and uK: "\<And>i. i < n \<Longrightarrow> u i \<in> K"
    and vK: "\<And>i. i < n \<Longrightarrow> v i \<in> K"
    and U: "\<And>k. U k = (\<Sum>i<n. if u i = k then 1 else 0)"
    and V: "\<And>k. V k = (\<Sum>i<n. if v i = k then 1 else 0)"
  shows "(int n * (\<Sum>i<n. if u i = v i then 1 else 0) - (\<Sum>k\<in>K. U k * V k))\<^sup>2 \<le>
           ((int n)\<^sup>2 - (\<Sum>k\<in>K. U k * U k)) * ((int n)\<^sup>2 - (\<Sum>k\<in>K. V k * V k))"
    and "0 \<le> (int n)\<^sup>2 - (\<Sum>k\<in>K. U k * U k)"
proof -
  let ?N = "int n"
  let ?a = "\<lambda>(i, k). ?N * (if u i = k then 1 else 0) - U k"
  let ?b = "\<lambda>(i, k). ?N * (if v i = k then 1 else 0) - V k"
  let ?S = "{..<n} \<times> K"
  let ?X = "?N * (\<Sum>i<n. if u i = v i then 1 else 0) - (\<Sum>k\<in>K. U k * V k)"
  let ?Y = "?N\<^sup>2 - (\<Sum>k\<in>K. U k * U k)"
  let ?Z = "?N\<^sup>2 - (\<Sum>k\<in>K. V k * V k)"
  have ab: "(\<Sum>x\<in>?S. ?a x * ?b x) = ?N * ?X"
    using centred_sum [OF fin uK U V] by (simp add: sum.cartesian_product case_prod_unfold)
  have "(\<Sum>x\<in>?S. (?a x)\<^sup>2) =
      ?N * (?N * (\<Sum>i<n. if u i = u i then 1 else 0) - (\<Sum>k\<in>K. U k * U k))"
    using centred_sum [OF fin uK U U] by (simp add: sum.cartesian_product power2_eq_square case_prod_unfold)
  then have aa: "(\<Sum>x\<in>?S. (?a x)\<^sup>2) = ?N * ?Y"
    by (simp add: power2_eq_square)
  have "(\<Sum>x\<in>?S. (?b x)\<^sup>2) =
      ?N * (?N * (\<Sum>i<n. if v i = v i then 1 else 0) - (\<Sum>k\<in>K. V k * V k))"
    using centred_sum [OF fin vK V V] by (simp add: sum.cartesian_product power2_eq_square case_prod_unfold)
  then have bb: "(\<Sum>x\<in>?S. (?b x)\<^sup>2) = ?N * ?Z"
    by (simp add: power2_eq_square)
  have cs: "(?N * ?X)\<^sup>2 \<le> (?N * ?Y) * (?N * ?Z)"
    using cauchy_schwarz_sum [of ?a ?b ?S] by (simp only: ab aa bb)
  have nonneg: "0 \<le> ?N * ?Y"
    unfolding aa [symmetric] by (intro sum_nonneg) simp
  show "0 \<le> ?Y"
  proof (cases "n = 0")
    case True
    then show ?thesis by (simp add: U)
  next
    case False
    with nonneg show ?thesis by (simp add: zero_le_mult_iff)
  qed
  show "?X\<^sup>2 \<le> ?Y * ?Z"
  proof (cases "n = 0")
    case True
    then show ?thesis by (simp add: U V)
  next
    case False
    then have pos: "0 < ?N * ?N" by simp
    from cs have "(?N * ?N) * ?X\<^sup>2 \<le> (?N * ?N) * (?Y * ?Z)"
      by (simp add: power2_eq_square algebra_simps)
    with pos show ?thesis
      by (simp only: mult_le_cancel_left_pos)
  qed
qed

lemma count_list_sum:
  "int (count_list xs k) = (\<Sum>i<length xs. if xs ! i = k then 1 else 0)"
proof (induction xs rule: rev_induct)
  case Nil
  show ?case by simp
next
  case (snoc x xs)
  have "(\<Sum>i<length xs. if (xs @ [x]) ! i = k then 1 else 0 :: int) =
        (\<Sum>i<length xs. if xs ! i = k then 1 else 0)"
    by (intro sum.cong) (simp_all add: nth_append)
  with snoc show ?case by simp
qed

lemma n_correct_sum:
  "length xs = length ys \<Longrightarrow>
     n_correct xs ys = (\<Sum>i<length xs. if xs ! i = ys ! i then 1 else 0)"
proof (induction xs ys rule: list_induct2)
  case Nil
  show ?case by (simp add: n_correct_def)
next
  case (Cons x xs y ys)
  have head: "n_correct (x # xs) (y # ys) = (if x = y then 1 else 0) + n_correct xs ys"
    by (simp add: n_correct_def)
  have shift: "(\<Sum>i<length (x # xs). if (x # xs) ! i = (y # ys) ! i then 1 else 0 :: int) =
        (if x = y then 1 else 0) + (\<Sum>i<length xs. if xs ! i = ys ! i then 1 else 0)"
    by (simp only: list.size add_Suc_right add_0_right sum.lessThan_Suc_shift
        nth_Cons_0 nth_Cons_Suc)
  show ?case by (simp only: head shift Cons.IH)
qed

lemma class_dot_sum:
  "distinct classes \<Longrightarrow>
     class_dot classes xs ys =
       (\<Sum>k\<in>set classes. int (count_list xs k) * int (count_list ys k))"
  by (simp add: class_dot_def sum_list_distinct_conv_sum_set)

lemma cov_var_bound:
  assumes len: "length y_true = length y_pred"
  shows "(cov y_true y_pred)\<^sup>2 \<le>
           var (remdups (y_true @ y_pred)) y_true * var (remdups (y_true @ y_pred)) y_pred"
    and "0 \<le> var (remdups (y_true @ y_pred)) y_true"
    and "0 \<le> var (remdups (y_true @ y_pred)) y_pred"
proof -
  let ?n = "length y_true"
  let ?K = "set (remdups (y_true @ y_pred))"
  let ?T = "\<lambda>k. int (count_list y_true k)" and ?P = "\<lambda>k. int (count_list y_pred k)"
  have fin: "finite ?K" by simp
  have tK: "\<And>i. i < ?n \<Longrightarrow> y_true ! i \<in> ?K" by simp
  have pK: "\<And>i. i < ?n \<Longrightarrow> y_pred ! i \<in> ?K" by (simp add: len)
  have T: "\<And>k. ?T k = (\<Sum>i<?n. if y_true ! i = k then 1 else 0)"
    by (rule count_list_sum)
  have P: "\<And>k. ?P k = (\<Sum>i<?n. if y_pred ! i = k then 1 else 0)"
    using count_list_sum [of y_pred] by (simp add: len)
  have c: "cov y_true y_pred =
      int ?n * (\<Sum>i<?n. if y_true ! i = y_pred ! i then 1 else 0) - (\<Sum>k\<in>?K. ?T k * ?P k)"
    using n_correct_sum [OF len] by (simp add: cov_def class_dot_sum mult.commute)
  have vt: "var (remdups (y_true @ y_pred)) y_true = (int ?n)\<^sup>2 - (\<Sum>k\<in>?K. ?T k * ?T k)"
    by (simp add: var_def class_dot_sum)
  have vp: "var (remdups (y_true @ y_pred)) y_pred = (int ?n)\<^sup>2 - (\<Sum>k\<in>?K. ?P k * ?P k)"
    by (simp add: var_def class_dot_sum len)
  show "(cov y_true y_pred)\<^sup>2 \<le>
           var (remdups (y_true @ y_pred)) y_true * var (remdups (y_true @ y_pred)) y_pred"
    unfolding c vt vp by (rule covariance_bound(1) [OF fin tK pK T P])
  show "0 \<le> var (remdups (y_true @ y_pred)) y_true"
    unfolding vt by (rule covariance_bound(2) [OF fin tK pK T P])
  show "0 \<le> var (remdups (y_true @ y_pred)) y_pred"
    unfolding vp by (rule covariance_bound(2) [OF fin pK tK P T])
qed

lemma matthews_corrcoef_bounds:
  assumes len: "length y_true = length y_pred"
  shows "- 1 \<le> matthews_corrcoef y_true y_pred \<and> matthews_corrcoef y_true y_pred \<le> 1"
proof -
  let ?c = "cov y_true y_pred"
  let ?vt = "var (remdups (y_true @ y_pred)) y_true"
  let ?vp = "var (remdups (y_true @ y_pred)) y_pred"
  show ?thesis
  proof (cases "?vp * ?vt = 0")
    case True
    then show ?thesis by (simp add: matthews_corrcoef_def)
  next
    case False
    have "0 \<le> ?vt * ?vp"
      using cov_var_bound(2,3) [OF len] by simp
    with False have "0 < ?vt * ?vp"
      by (simp add: mult.commute less_le)
    then have pos: "0 < real_of_int (?vt * ?vp)"
      by (simp only: of_int_0_less_iff)
    have "real_of_int (?c\<^sup>2) \<le> real_of_int (?vt * ?vp)"
      using cov_var_bound(1) [OF len] by (simp only: of_int_le_iff)
    then have "(real_of_int ?c)\<^sup>2 \<le> real_of_int (?vt * ?vp)"
      by simp
    then have "sqrt ((real_of_int ?c)\<^sup>2) \<le> sqrt (real_of_int (?vt * ?vp))"
      by (simp only: real_sqrt_le_iff)
    then have abs: "\<bar>real_of_int ?c\<bar> \<le> sqrt (real_of_int (?vt * ?vp))"
      by simp
    have spos: "0 < sqrt (real_of_int (?vt * ?vp))"
      using pos by simp
    from abs spos have "\<bar>real_of_int ?c / sqrt (real_of_int (?vt * ?vp))\<bar> \<le> 1"
      by (simp add: abs_le_iff pos_divide_le_eq pos_le_divide_eq)
    then have "- 1 \<le> real_of_int ?c / sqrt (real_of_int (?vt * ?vp)) \<and>
               real_of_int ?c / sqrt (real_of_int (?vt * ?vp)) \<le> 1"
      by linarith
    with False show ?thesis
      by (simp add: matthews_corrcoef_def Let_def)
  qed
qed

lemma argmax_from_first_greatest:
  assumes "best < length pre" and "bv = pre ! best"
    and "\<forall>j < length pre. pre ! j \<le> bv" and "\<forall>j < best. pre ! j < bv"
  shows "argmax_from best bv (length pre) xs < length (pre @ xs) \<and>
         (\<forall>j < length (pre @ xs). (pre @ xs) ! j \<le> (pre @ xs) ! argmax_from best bv (length pre) xs) \<and>
         (\<forall>j < argmax_from best bv (length pre) xs.
            (pre @ xs) ! j < (pre @ xs) ! argmax_from best bv (length pre) xs)"
  using assms
proof (induction xs arbitrary: pre best bv)
  case Nil
  then show ?case by simp
next
  case (Cons x xs)
  show ?case
  proof (cases "bv < x")
    case True
    have "argmax_from (length pre) x (length (pre @ [x])) xs < length ((pre @ [x]) @ xs) \<and>
         (\<forall>j < length ((pre @ [x]) @ xs).
            ((pre @ [x]) @ xs) ! j \<le> ((pre @ [x]) @ xs) ! argmax_from (length pre) x (length (pre @ [x])) xs) \<and>
         (\<forall>j < argmax_from (length pre) x (length (pre @ [x])) xs.
            ((pre @ [x]) @ xs) ! j < ((pre @ [x]) @ xs) ! argmax_from (length pre) x (length (pre @ [x])) xs)"
    proof (rule Cons.IH)
      show "length pre < length (pre @ [x])" by simp
      show "x = (pre @ [x]) ! length pre" by simp
      show "\<forall>j < length (pre @ [x]). (pre @ [x]) ! j \<le> x"
        using Cons.prems(3) True by (auto simp: nth_append less_Suc_eq intro: less_imp_le order_trans)
      show "\<forall>j < length pre. (pre @ [x]) ! j < x"
        using Cons.prems(3) True by (auto simp: nth_append intro: le_less_trans)
    qed
    with True show ?thesis by simp
  next
    case False
    have "argmax_from best bv (length (pre @ [x])) xs < length ((pre @ [x]) @ xs) \<and>
         (\<forall>j < length ((pre @ [x]) @ xs).
            ((pre @ [x]) @ xs) ! j \<le> ((pre @ [x]) @ xs) ! argmax_from best bv (length (pre @ [x])) xs) \<and>
         (\<forall>j < argmax_from best bv (length (pre @ [x])) xs.
            ((pre @ [x]) @ xs) ! j < ((pre @ [x]) @ xs) ! argmax_from best bv (length (pre @ [x])) xs)"
    proof (rule Cons.IH)
      show "best < length (pre @ [x])" using Cons.prems(1) by simp
      show "bv = (pre @ [x]) ! best" using Cons.prems(1,2) by (simp add: nth_append)
      show "\<forall>j < length (pre @ [x]). (pre @ [x]) ! j \<le> bv"
        using Cons.prems(3) False by (auto simp: nth_append less_Suc_eq)
      show "\<forall>j < best. (pre @ [x]) ! j < bv"
        using Cons.prems(1,4) by (auto simp: nth_append)
    qed
    with False show ?thesis by simp
  qed
qed

lemma argmax_row_first_greatest:
  assumes "r \<noteq> []"
  shows "argmax_row r < length r \<and>
         (\<forall>j < length r. r ! j \<le> r ! argmax_row r) \<and>
         (\<forall>j < argmax_row r. r ! j < r ! argmax_row r)"
proof -
  from assms obtain x xs where r: "r = x # xs" by (cases r) auto
  have "argmax_from 0 x (length [x]) xs < length ([x] @ xs) \<and>
         (\<forall>j < length ([x] @ xs). ([x] @ xs) ! j \<le> ([x] @ xs) ! argmax_from 0 x (length [x]) xs) \<and>
         (\<forall>j < argmax_from 0 x (length [x]) xs.
            ([x] @ xs) ! j < ([x] @ xs) ! argmax_from 0 x (length [x]) xs)"
    by (rule argmax_from_first_greatest) simp_all
  then show ?thesis
    by (simp add: r argmax_row_def)
qed

lemma compute_metrics_run:
  assumes m: "map_of (metrics self) ''mcc'' = Some matthews_correlation"
    and cols: "0 < ncols predictions"
    and len: "length labels = length (rows predictions)"
  shows "compute_metrics self (predictions, labels) id2label =
           Inr [(''mcc'',
              matthews_corrcoef labels (map (\<lambda>r. int (argmax_row r)) (rows predictions)))]"
  using assms
  by (simp add: compute_metrics_def argmax_def matthews_correlation_def)

lemma sqrt_16: "sqrt 16 = 4"
  by (rule real_sqrt_unique) simp_all

lemma example_argmax:
  "argmax \<lparr>ncols = 2, rows = [[0.1, 0.9], [0.8, 0.2], [0.3, 0.7]]\<rparr> = Inr [1, 0, 1]"
  by (simp add: argmax_def argmax_row_def)

lemma example_mcc: "matthews_corrcoef [1, 0, 0] [1, 0, 1] = 1 / 2"
  by (simp add: matthews_corrcoef_def cov_def var_def class_dot_def n_correct_def sqrt_16)

section \<open>Claims about label numericalisation\<close>

text \<open>
  C1. When the label column of a batch holds label strings that are all keys of
  \<open>label2id\<close>, \<open>create_numerical_labels\<close> returns the batch (which is the caller's dict after
  the call) with the label column replaced, position by position, by the ids
  \<open>label2id[label]\<close>: the column is the \<open>map\<close> of the old one, so it has as many entries in
  the same order. Every other field holds what it held, and the fields are the same, in
  the same order.
\<close>

theorem create_numerical_labels_known:
  assumes "map_of examples ''label'' = Some (map PyStr ls)"
    and "set ls \<subseteq> fst ` set label2id"
  shows "\<exists>examples'.
           create_numerical_labels examples label2id = (Inr examples', examples') \<and>
           map_of examples' ''label'' = Some (map (\<lambda>l. PyInt (the (map_of label2id l))) ls) \<and>
           (\<forall>name. name \<noteq> ''label'' \<longrightarrow> map_of examples' name = map_of examples name) \<and>
           map fst examples' = map fst examples"
proof -
  let ?ids = "map (\<lambda>l. the (map_of label2id l)) ls"
  let ?out = "AList.update ''label'' (map PyInt ?ids) examples"
  have run: "create_numerical_labels examples label2id = (Inr ?out, ?out)"
    using assms by (simp add: create_numerical_labels_def comprehension_known Let_def)
  have col: "map_of ?out ''label'' = Some (map (\<lambda>l. PyInt (the (map_of label2id l))) ls)"
    by (simp add: map_of_update_label comp_def)
  have rest: "\<forall>name. name \<noteq> ''label'' \<longrightarrow> map_of ?out name = map_of examples name"
    by (simp add: map_of_update_label)
  have keys: "map fst ?out = map fst examples"
    using assms(1) by (rule keys_update_label)
  from run col rest keys show ?thesis by blast
qed

theorem create_numerical_labels_known_witness:
  "\<exists>examples'.
     create_numerical_labels
       [(''text'', [PyStr ''a'', PyStr ''b'']), (''label'', [PyStr ''pos'', PyStr ''neg''])]
       [(''pos'', 1), (''neg'', 0)] = (Inr examples', examples') \<and>
     map_of examples' ''label'' = Some [PyInt 1, PyInt 0] \<and>
     map_of examples' ''text'' = Some [PyStr ''a'', PyStr ''b''] \<and>
     map fst examples' = [''text'', ''label'']"
proof -
  let ?examples =
    "[(''text'', [PyStr ''a'', PyStr ''b'']), (''label'', [PyStr ''pos'', PyStr ''neg''])]"
  let ?label2id = "[(''pos'', 1), (''neg'', 0 :: int)]"
  have labels: "map_of ?examples ''label'' = Some (map PyStr [''pos'', ''neg''])"
    by simp
  have keys: "set [''pos'', ''neg''] \<subseteq> fst ` set ?label2id"
    by simp
  have neq: "''text'' \<noteq> ''label''"
    by simp
  from create_numerical_labels_known [OF labels keys]
  obtain examples' where
    run: "create_numerical_labels ?examples ?label2id = (Inr examples', examples')" and
    col: "map_of examples' ''label'' =
       Some (map (\<lambda>l. PyInt (the (map_of ?label2id l))) [''pos'', ''neg''])" and
    rest: "\<forall>name. name \<noteq> ''label'' \<longrightarrow> map_of examples' name = map_of ?examples name" and
    names: "map fst examples' = map fst ?examples"
    by (elim exE conjE)
  from col have col': "map_of examples' ''label'' = Some [PyInt 1, PyInt 0]"
    by simp
  from rest neq have "map_of examples' ''text'' = map_of ?examples ''text''"
    by simp
  then have text': "map_of examples' ''text'' = Some [PyStr ''a'', PyStr ''b'']"
    by simp
  from names have names': "map fst examples' = [''text'', ''label'']"
    by simp
  from run col' text' names' show ?thesis
    by (intro exI conjI)
qed

text \<open>
  C2. When the label column holds label strings and at least one of them is no key of
  \<open>label2id\<close>, the call raises InvalidBenchmark, whose message carries the whole label
  column and the mapping. Nothing is returned, and the caller's dict is what it was: the
  label field has not been assigned.
\<close>

theorem create_numerical_labels_unknown:
  assumes "map_of examples ''label'' = Some (map PyStr ls)"
    and "\<not> set ls \<subseteq> fst ` set label2id"
  shows "create_numerical_labels examples label2id =
           (Inl (InvalidBenchmark
              [Lit ''One of the labels in the dataset, '',
               ReprColumn (map PyStr ls),
               Lit '', does not occur in the label2id dictionary '',
               ReprLabel2id label2id,
               Lit ''.'']), examples)"
proof -
  from assms(2) obtain k where "comprehension label2id (map PyStr ls) = Inl (KeyError k)"
    using comprehension_unknown by blast
  with assms(1) show ?thesis
    by (simp add: create_numerical_labels_def)
qed

theorem create_numerical_labels_unknown_witness:
  "create_numerical_labels
     [(''text'', [PyStr ''a'', PyStr ''b'']), (''label'', [PyStr ''pos'', PyStr ''other''])]
     [(''pos'', 1), (''neg'', 0)] =
   (Inl (InvalidBenchmark
      [Lit ''One of the labels in the dataset, '',
       ReprColumn [PyStr ''pos'', PyStr ''other''],
       Lit '', does not occur in the label2id dictionary '',
       ReprLabel2id [(''pos'', 1), (''neg'', 0)],
       Lit ''.'']),
    [(''text'', [PyStr ''a'', PyStr ''b'']), (''label'', [PyStr ''pos'', PyStr ''other''])])"
  using create_numerical_labels_unknown
    [of "[(''text'', [PyStr ''a'', PyStr ''b'']), (''label'', [PyStr ''pos'', PyStr ''other''])]"
        "[''pos'', ''other'']" "[(''pos'', 1), (''neg'', 0)]"]
  by simp

section \<open>Claims about preprocessing\<close>




section \<open>Claims about the unsupported framework\<close>

text \<open>
  C5. With the framework \<^verbatim>\<open>"spacy"\<close>, \<open>preprocess_data\<close> raises InvalidBenchmark whatever the
  dataset and the keyword arguments are.
\<close>

theorem preprocess_data_spacy:
  "preprocess_data batch_size dataset ''spacy'' kwargs =
     Inl (InvalidBenchmark
       [Lit ''Evaluation of text predictions for SpaCy models is not yet implemented.''])"
  by (simp add: preprocess_data_def)

text \<open>
  C6. \<open>get_spacy_predictions_and_labels\<close> raises InvalidBenchmark, with the "not yet
  implemented" message, for every model and dataset; it returns no pair.
\<close>

theorem get_spacy_predictions_and_labels_raises:
  "get_spacy_predictions_and_labels model dataset =
     Inl (InvalidBenchmark
       [Lit ''Evaluation of text classification tasks for SpaCy models is not yet implemented.''])
   \<and> (\<nexists>pair. get_spacy_predictions_and_labels model dataset = Inr pair)"
  by (simp add: get_spacy_predictions_and_labels_def)

text \<open>
  C10. With a framework tag that is neither \<^verbatim>\<open>"pytorch"\<close> nor \<^verbatim>\<open>"spacy"\<close>,
  \<open>preprocess_data\<close> raises nothing and returns \<^verbatim>\<open>None\<close>.
\<close>

theorem preprocess_data_other_framework:
  assumes "framework \<noteq> ''pytorch''" and "framework \<noteq> ''spacy''"
  shows "preprocess_data batch_size dataset framework kwargs = Inr None"
  using assms by (simp add: preprocess_data_def)

theorem preprocess_data_other_framework_witness:
  "preprocess_data 1000 [(''text'', [PyStr ''a'']), (''label'', [PyStr ''pos''])] ''jax'' [] = Inr None
   \<and> preprocess_data 1000 [] [] [] = Inr None"
  using preprocess_data_other_framework [of "''jax''" 1000
      "[(''text'', [PyStr ''a'']), (''label'', [PyStr ''pos''])]" "[]"]
    preprocess_data_other_framework [of "[]" 1000 "[]" "[]"]
  by simp

section \<open>Claims about metric computation\<close>

text \<open>
  C3, as stated, fails for a score array without columns: on the array of shape (1, 0) with
  the single label 0 the arg-max has nothing to choose from and the call raises the
  ValueError of \<^verbatim>\<open>numpy\<close> instead of returning a mapping.
\<close>

theorem compute_metrics_no_classes_counterexample:
  "compute_metrics example_benchmark (\<lparr>ncols = 0, rows = [[]]\<rparr>, [0]) None =
     Inl (ValueError ''attempt to get argmax of an empty sequence'')"
  by (simp add: compute_metrics_def argmax_def)

text \<open>
  C3, amended: the claim for score arrays with at least one column. Let the metric under
  \<^verbatim>\<open>"mcc"\<close> be the Matthews correlation metric. For predictions of shape (N, C) with
  \<open>C \<ge> 1\<close> and N labels, \<open>compute_metrics\<close> returns the dict with the single key \<^verbatim>\<open>"mcc"\<close>;
  its value is the Matthews correlation coefficient of the labels and the predicted
  classes, and lies between -1 and 1. The predicted class of a row is the index of its
  first greatest score. For the predictions \<open>[[0.1, 0.9], [0.8, 0.2], [0.3, 0.7]]\<close> and
  the labels \<open>[1, 0, 0]\<close> the predicted classes are \<open>[1, 0, 1]\<close> and the value is 1/2,
  which differs from 1.
\<close>

theorem compute_metrics_mcc:
  assumes m: "map_of (metrics self) ''mcc'' = Some matthews_correlation"
  shows
    "(wf_ndarray predictions \<and> 0 < ncols predictions \<and>
      length labels = length (rows predictions) \<longrightarrow>
        (\<exists>classes v.
           argmax predictions = Inr classes \<and> length classes = length labels \<and>
           (\<forall>i < length (rows predictions).
              0 \<le> classes ! i \<and> nat (classes ! i) < ncols predictions \<and>
              (\<forall>j < ncols predictions.
                 rows predictions ! i ! j \<le> rows predictions ! i ! nat (classes ! i)) \<and>
              (\<forall>j < nat (classes ! i).
                 rows predictions ! i ! j < rows predictions ! i ! nat (classes ! i))) \<and>
           compute_metrics self (predictions, labels) id2label = Inr [(''mcc'', v)] \<and>
           v = matthews_corrcoef labels classes \<and> - 1 \<le> v \<and> v \<le> 1)) \<and>
     argmax \<lparr>ncols = 2, rows = [[0.1, 0.9], [0.8, 0.2], [0.3, 0.7]]\<rparr> = Inr [1, 0, 1] \<and>
     (\<exists>v. compute_metrics self
             (\<lparr>ncols = 2, rows = [[0.1, 0.9], [0.8, 0.2], [0.3, 0.7]]\<rparr>, [1, 0, 0]) id2label =
             Inr [(''mcc'', v)] \<and>
          v = 1 / 2 \<and> v \<noteq> 1 \<and> - 1 \<le> v \<and> v \<le> 1)"
proof (intro conjI impI)
  assume "wf_ndarray predictions \<and> 0 < ncols predictions \<and>
      length labels = length (rows predictions)"
  then have wf: "wf_ndarray predictions" and cols: "0 < ncols predictions"
    and len: "length labels = length (rows predictions)"
    by simp_all
  let ?classes = "map (\<lambda>r. int (argmax_row r)) (rows predictions)"
  let ?v = "matthews_corrcoef labels ?classes"
  have a: "argmax predictions = Inr ?classes"
    using cols by (simp add: argmax_def)
  have l: "length ?classes = length labels"
    by (simp add: len)
  have rows: "\<forall>i < length (rows predictions).
      0 \<le> ?classes ! i \<and> nat (?classes ! i) < ncols predictions \<and>
      (\<forall>j < ncols predictions.
         rows predictions ! i ! j \<le> rows predictions ! i ! nat (?classes ! i)) \<and>
      (\<forall>j < nat (?classes ! i).
         rows predictions ! i ! j < rows predictions ! i ! nat (?classes ! i))"
  proof (intro allI impI)
    fix i
    assume i: "i < length (rows predictions)"
    let ?r = "rows predictions ! i"
    from i have "?r \<in> set (rows predictions)" by simp
    with wf have lr: "length ?r = ncols predictions"
      by (simp add: wf_ndarray_def)
    with cols have "?r \<noteq> []" by auto
    from argmax_row_first_greatest [OF this] lr i
    show "0 \<le> ?classes ! i \<and> nat (?classes ! i) < ncols predictions \<and>
      (\<forall>j < ncols predictions. ?r ! j \<le> ?r ! nat (?classes ! i)) \<and>
      (\<forall>j < nat (?classes ! i). ?r ! j < ?r ! nat (?classes ! i))"
      by simp
  qed
  have run: "compute_metrics self (predictions, labels) id2label = Inr [(''mcc'', ?v)]"
    using m cols len by (rule compute_metrics_run)
  have bounds: "- 1 \<le> ?v \<and> ?v \<le> 1"
    by (rule matthews_corrcoef_bounds) (simp add: len)
  show "\<exists>classes v.
           argmax predictions = Inr classes \<and> length classes = length labels \<and>
           (\<forall>i < length (rows predictions).
              0 \<le> classes ! i \<and> nat (classes ! i) < ncols predictions \<and>
              (\<forall>j < ncols predictions.
                 rows predictions ! i ! j \<le> rows predictions ! i ! nat (classes ! i)) \<and>
              (\<forall>j < nat (classes ! i).
                 rows predictions ! i ! j < rows predictions ! i ! nat (classes ! i))) \<and>
           compute_metrics self (predictions, labels) id2label = Inr [(''mcc'', v)] \<and>
           v = matthews_corrcoef labels classes \<and> - 1 \<le> v \<and> v \<le> 1"
  proof (rule exI [where x = ?classes], rule exI [where x = ?v], intro conjI)
    show "argmax predictions = Inr ?classes" by (rule a)
    show "length ?classes = length labels" by (rule l)
    show "\<forall>i < length (rows predictions).
      0 \<le> ?classes ! i \<and> nat (?classes ! i) < ncols predictions \<and>
      (\<forall>j < ncols predictions.
         rows predictions ! i ! j \<le> rows predictions ! i ! nat (?classes ! i)) \<and>
      (\<forall>j < nat (?classes ! i).
         rows predictions ! i ! j < rows predictions ! i ! nat (?classes ! i))" by (rule rows)
    show "compute_metrics self (predictions, labels) id2label = Inr [(''mcc'', ?v)]" by (rule run)
    show "?v = ?v" by (rule refl)
    show "- 1 \<le> ?v" using bounds by (rule conjunct1)
    show "?v \<le> 1" using bounds by (rule conjunct2)
  qed
next
  show "argmax \<lparr>ncols = 2, rows = [[0.1, 0.9], [0.8, 0.2], [0.3, 0.7]]\<rparr> = Inr [1, 0, 1]"
    by (rule example_argmax)
next
  let ?p = "\<lparr>ncols = 2, rows = [[0.1, 0.9], [0.8, 0.2], [0.3, 0.7 :: real]]\<rparr>"
  have "compute_metrics self (?p, [1, 0, 0]) id2label =
          Inr [(''mcc'', matthews_corrcoef [1, 0, 0] (map (\<lambda>r. int (argmax_row r)) (rows ?p)))]"
    using m by (rule compute_metrics_run) simp_all
  also have "map (\<lambda>r. int (argmax_row r)) (rows ?p) = [1, 0, 1]"
    by (simp add: argmax_row_def)
  finally have "compute_metrics self (?p, [1, 0, 0]) id2label = Inr [(''mcc'', 1 / 2)]"
    by (simp only: example_mcc)
  then show "\<exists>v. compute_metrics self (?p, [1, 0, 0]) id2label = Inr [(''mcc'', v)] \<and>
          v = 1 / 2 \<and> v \<noteq> 1 \<and> - 1 \<le> v \<and> v \<le> 1"
    by (intro exI [where x = "1 / 2"] conjI) simp_all
qed


theorem compute_metrics_mcc_witness:
  "\<exists>v. compute_metrics example_benchmark
          (\<lparr>ncols = 3, rows = [[0.2, 0.5, 0.3], [0.9, 0.05, 0.05]]\<rparr>, [1, 0]) None =
          Inr [(''mcc'', v)] \<and>
        v = matthews_corrcoef [1, 0] [1, 0] \<and> - 1 \<le> v \<and> v \<le> 1"
proof -
  let ?p = "\<lparr>ncols = 3, rows = [[0.2, 0.5, 0.3], [0.9, 0.05, 0.05 :: real]]\<rparr>"
  have m: "map_of (metrics example_benchmark) ''mcc'' = Some matthews_correlation"
    by (simp add: example_benchmark_def)
  have shape: "wf_ndarray ?p \<and> 0 < ncols ?p \<and> length [1, 0 :: int] = length (rows ?p)"
    by (simp add: wf_ndarray_def)
  have classes: "argmax ?p = Inr [1, 0]"
    by (simp add: argmax_def argmax_row_def)
  have "wf_ndarray ?p \<and> 0 < ncols ?p \<and> length [1, 0 :: int] = length (rows ?p) \<longrightarrow>
        (\<exists>classes v.
           argmax ?p = Inr classes \<and> length classes = length [1, 0 :: int] \<and>
           (\<forall>i < length (rows ?p).
              0 \<le> classes ! i \<and> nat (classes ! i) < ncols ?p \<and>
              (\<forall>j < ncols ?p. rows ?p ! i ! j \<le> rows ?p ! i ! nat (classes ! i)) \<and>
              (\<forall>j < nat (classes ! i). rows ?p ! i ! j < rows ?p ! i ! nat (classes ! i))) \<and>
           compute_metrics example_benchmark (?p, [1, 0]) None = Inr [(''mcc'', v)] \<and>
           v = matthews_corrcoef [1, 0] classes \<and> - 1 \<le> v \<and> v \<le> 1)"
    using compute_metrics_mcc [OF m, of ?p "[1, 0]" None] by (rule conjunct1)
  from this shape have "\<exists>classes v.
           argmax ?p = Inr classes \<and> length classes = length [1, 0 :: int] \<and>
           (\<forall>i < length (rows ?p).
              0 \<le> classes ! i \<and> nat (classes ! i) < ncols ?p \<and>
              (\<forall>j < ncols ?p. rows ?p ! i ! j \<le> rows ?p ! i ! nat (classes ! i)) \<and>
              (\<forall>j < nat (classes ! i). rows ?p ! i ! j < rows ?p ! i ! nat (classes ! i))) \<and>
           compute_metrics example_benchmark (?p, [1, 0]) None = Inr [(''mcc'', v)] \<and>
           v = matthews_corrcoef [1, 0] classes \<and> - 1 \<le> v \<and> v \<le> 1"
    by (rule mp)
  then obtain classes v where
    a: "argmax ?p = Inr classes" and
    run: "compute_metrics example_benchmark (?p, [1, 0]) None = Inr [(''mcc'', v)]" and
    v: "v = matthews_corrcoef [1, 0] classes" and
    lo: "- 1 \<le> v" and hi: "v \<le> 1"
    by (elim conjE exE)
  from a classes have "classes = [1, 0]"
    by simp
  with v have v': "v = matthews_corrcoef [1, 0] [1, 0]"
    by simp
  from run v' lo hi show ?thesis
    by (intro exI conjI)
qed

text \<open>
  C8. The argument \<open>id2label\<close> has no effect on what \<open>compute_metrics\<close> returns or raises:
  any two values of it, \<^verbatim>\<open>None\<close> included, give the same outcome.
\<close>

theorem compute_metrics_ignores_id2label:
  "compute_metrics self predictions_and_labels id2label =
     compute_metrics self predictions_and_labels id2label'"
  by (simp add: compute_metrics_def)

section \<open>Claims about collator construction\<close>

text \<open>
  C7. For every tokenizer, present or absent, \<open>load_data_collator\<close> returns a collator
  that holds this tokenizer, has the strategy \<open>Longest\<close> and no \<open>max_length\<close>. With a
  tokenizer present, applying it to a batch pads the token ids of every example, by the
  tokenizer's convention, to the length \<open>longest batch\<close> and keeps the labels;
  \<open>longest batch\<close> is the length of the longest sequence of this batch (no sequence of the
  batch is longer, and one of them has this length), not a length fixed in advance.
\<close>

theorem load_data_collator_longest:
  "padding (load_data_collator tok) = Longest \<and>
   max_length (load_data_collator tok) = None \<and>
   collator_tokenizer (load_data_collator tok) = tok \<and>
   (\<forall>t. tok = Some t \<longrightarrow>
      (\<exists>out. collate (load_data_collator tok) batch = Inr out \<and>
         length out = length batch \<and>
         (\<forall>i < length batch.
            feature_input_ids (out ! i) =
              pad_to (side t) (pad_token_id t) (longest batch) (feature_input_ids (batch ! i)) \<and>
            length (feature_input_ids (out ! i)) = longest batch \<and>
            feature_label (out ! i) = feature_label (batch ! i)))) \<and>
   (\<forall>x \<in> set batch. length (feature_input_ids x) \<le> longest batch) \<and>
   (batch \<noteq> [] \<longrightarrow> (\<exists>x \<in> set batch. length (feature_input_ids x) = longest batch))"
proof (intro conjI allI impI ballI)
  fix t
  assume tok: "tok = Some t"
  let ?out = "map (pad_feature t (longest batch)) batch"
  have run: "collate (load_data_collator tok) batch = Inr ?out"
    using tok by (simp add: collate_def load_data_collator_def)
  have rows: "\<forall>i < length batch.
      feature_input_ids (?out ! i) =
        pad_to (side t) (pad_token_id t) (longest batch) (feature_input_ids (batch ! i)) \<and>
      length (feature_input_ids (?out ! i)) = longest batch \<and>
      feature_label (?out ! i) = feature_label (batch ! i)"
  proof (intro allI impI)
    fix i
    assume i: "i < length batch"
    then have "batch ! i \<in> set batch" by simp
    then have "length (feature_input_ids (batch ! i)) \<le> longest batch"
      by (rule longest_upper)
    with i show "feature_input_ids (?out ! i) =
        pad_to (side t) (pad_token_id t) (longest batch) (feature_input_ids (batch ! i)) \<and>
      length (feature_input_ids (?out ! i)) = longest batch \<and>
      feature_label (?out ! i) = feature_label (batch ! i)"
      by (simp add: pad_feature_def length_pad_to)
  qed
  show "\<exists>out. collate (load_data_collator tok) batch = Inr out \<and>
         length out = length batch \<and>
         (\<forall>i < length batch.
            feature_input_ids (out ! i) =
              pad_to (side t) (pad_token_id t) (longest batch) (feature_input_ids (batch ! i)) \<and>
            length (feature_input_ids (out ! i)) = longest batch \<and>
            feature_label (out ! i) = feature_label (batch ! i))"
  proof (rule exI [where x = ?out], intro conjI)
    show "collate (load_data_collator tok) batch = Inr ?out" by (rule run)
    show "length ?out = length batch" by simp
    show "\<forall>i < length batch.
      feature_input_ids (?out ! i) =
        pad_to (side t) (pad_token_id t) (longest batch) (feature_input_ids (batch ! i)) \<and>
      length (feature_input_ids (?out ! i)) = longest batch \<and>
      feature_label (?out ! i) = feature_label (batch ! i)" by (rule rows)
  qed
qed (simp_all add: load_data_collator_def longest_upper longest_attained)

theorem load_data_collator_longest_witness:
  "longest example_batch = 4 \<and>
   collate (load_data_collator (Some example_tokenizer)) example_batch =
     Inr [\<lparr>feature_input_ids = [101, 7, 8, 102], feature_attention_mask = [1, 1, 1, 1], feature_label = 1\<rparr>,
          \<lparr>feature_input_ids = [101, 102, 0, 0], feature_attention_mask = [1, 1, 0, 0], feature_label = 0\<rparr>] \<and>
   (\<exists>out. collate (load_data_collator (Some example_tokenizer)) example_batch = Inr out \<and>
      length (feature_input_ids (out ! 1)) = 4 \<and> feature_label (out ! 1) = 0)"
proof -
  have four: "longest example_batch = 4"
    by (simp add: longest_def example_batch_def)
  have run: "collate (load_data_collator (Some example_tokenizer)) example_batch =
     Inr [\<lparr>feature_input_ids = [101, 7, 8, 102], feature_attention_mask = [1, 1, 1, 1], feature_label = 1\<rparr>,
          \<lparr>feature_input_ids = [101, 102, 0, 0], feature_attention_mask = [1, 1, 0, 0], feature_label = 0\<rparr>]"
    by (simp add: collate_def load_data_collator_def longest_def example_batch_def
        example_tokenizer_def pad_feature_def pad_to_def)
  have one: "1 < length example_batch" "example_batch \<noteq> []"
    by (simp_all add: example_batch_def)
  from load_data_collator_longest [of "Some example_tokenizer" example_batch]
  obtain out where
    out: "collate (load_data_collator (Some example_tokenizer)) example_batch = Inr out" and
    rows: "\<forall>i < length example_batch.
            feature_input_ids (out ! i) =
              pad_to (side example_tokenizer) (pad_token_id example_tokenizer)
                (longest example_batch) (feature_input_ids (example_batch ! i)) \<and>
            length (feature_input_ids (out ! i)) = longest example_batch \<and>
            feature_label (out ! i) = feature_label (example_batch ! i)"
    by auto
  from rows have "1 < length example_batch \<longrightarrow>
     feature_input_ids (out ! 1) =
       pad_to (side example_tokenizer) (pad_token_id example_tokenizer)
         (longest example_batch) (feature_input_ids (example_batch ! 1)) \<and>
     length (feature_input_ids (out ! 1)) = longest example_batch \<and>
     feature_label (out ! 1) = feature_label (example_batch ! 1)"
    by (rule spec)
  with one(1) have
    "length (feature_input_ids (out ! 1)) = longest example_batch \<and>
     feature_label (out ! 1) = feature_label (example_batch ! 1)"
    by (elim impE conjE) (assumption, intro conjI)
  then have "length (feature_input_ids (out ! 1)) = 4 \<and> feature_label (out ! 1) = 0"
    by (simp add: four) (simp add: example_batch_def)
  with out have "\<exists>out. collate (load_data_collator (Some example_tokenizer)) example_batch = Inr out \<and>
      length (feature_input_ids (out ! 1)) = 4 \<and> feature_label (out ! 1) = 0"
    by (intro exI [where x = out]) simp
  with four run show ?thesis by simp
qed

section \<open>Claims about side effects\<close>





end
